theory Spec2Isabelle
  imports Main "HOL-Library.AList" "HOL-Library.Sublist"
begin

section \<open>Python text\<close>

text \<open>
  A Python \<open>str\<close> is a sequence of Unicode code points: it is modelled as a list of
  integers, the values \<open>ord\<close> gives its characters. \<open>lit\<close> turns a literal of ASCII
  characters into such a text.
\<close>

type_synonym pstr = "int list"

definition lit :: "string \<Rightarrow> pstr" where
  "lit s = map (of_char :: char \<Rightarrow> int) s"

text \<open>
  The whitespace of \<open>str.strip()\<close>, of \<open>str.isspace()\<close> and of the pattern \<open>\s\<close>: tab to
  carriage return, the separators U+001C..U+001F, the space, U+0085, U+00A0, U+1680,
  U+2000..U+200A, U+2028, U+2029, U+202F, U+205F and U+3000.
\<close>

definition is_space :: "int \<Rightarrow> bool" where
  "is_space c =
    ((0x09 \<le> c \<and> c \<le> 0x0D) \<or> (0x1C \<le> c \<and> c \<le> 0x20) \<or> c = 0x85 \<or> c = 0xA0 \<or>
     c = 0x1680 \<or> (0x2000 \<le> c \<and> c \<le> 0x200A) \<or> c = 0x2028 \<or> c = 0x2029 \<or>
     c = 0x202F \<or> c = 0x205F \<or> c = 0x3000)"

definition py_lstrip :: "pstr \<Rightarrow> pstr" where
  "py_lstrip s = dropWhile is_space s"

definition py_rstrip :: "pstr \<Rightarrow> pstr" where
  "py_rstrip s = rev (dropWhile is_space (rev s))"

definition py_strip :: "pstr \<Rightarrow> pstr" where
  "py_strip s = py_rstrip (py_lstrip s)"

text \<open>\<open>str.startswith(p)\<close> and the substring test \<open>p in s\<close>.\<close>

definition startswith :: "pstr \<Rightarrow> pstr \<Rightarrow> bool" where
  "startswith s p = (take (length p) s = p)"

fun contains :: "pstr \<Rightarrow> pstr \<Rightarrow> bool" where
  "contains [] p = (p = [])"
| "contains (c # cs) p = (startswith (c # cs) p \<or> contains cs p)"

text \<open>Decimal digits of a natural number.\<close>

fun str_nat :: "nat \<Rightarrow> pstr" where
  "str_nat n = (if n < 10 then [48 + int n] else str_nat (n div 10) @ [48 + int (n mod 10)])"

declare str_nat.simps [simp del]

section \<open>What the Python runtime and its libraries supply\<close>

text \<open>
  The code relies on tables and settings that are not part of the repository; they are
  parameters of the model.
  \<^item> \<open>to_upper\<close>, \<open>to_lower\<close>: the full upper-case and lower-case text of a code point
    beyond ASCII (one code point can become several: U+00DF becomes SS, and U+017F
    becomes S).
  \<^item> \<open>final_sigma\<close>: whether the capital sigma at a position of a text is in final
    position, on which its lower-case form depends.
  \<^item> \<open>is_alnum\<close>: \<open>str.isalnum()\<close> of a code point beyond ASCII.
  \<^item> \<open>int_max_str_digits\<close>: the longest integer, in decimal digits, that may be turned
    into text (\<open>sys.get_int_max_str_digits()\<close>, 4300 unless set otherwise); 0 means no
    limit.
  \<^item> \<open>validation_report\<close>: the text pydantic gives a \<open>ValidationError\<close>, from the model's
    name, the field, the validator's message and the rejected input.
\<close>

record runtime =
  to_upper :: "int \<Rightarrow> pstr"
  to_lower :: "int \<Rightarrow> pstr"
  final_sigma :: "pstr \<Rightarrow> nat \<Rightarrow> bool"
  is_alnum :: "int \<Rightarrow> bool"
  int_max_str_digits :: int
  validation_report :: "pstr \<Rightarrow> pstr \<Rightarrow> pstr \<Rightarrow> pstr \<Rightarrow> pstr"

text \<open>
  \<open>str.upper()\<close> maps every code point on its own: within ASCII the letters a..z become
  A..Z and all else is kept.
\<close>

definition ascii_upper :: "int \<Rightarrow> int" where
  "ascii_upper c = (if 97 \<le> c \<and> c \<le> 122 then c - 32 else c)"

definition upper_char :: "runtime \<Rightarrow> int \<Rightarrow> pstr" where
  "upper_char rt c = (if c < 128 then [ascii_upper c] else to_upper rt c)"

definition py_upper :: "runtime \<Rightarrow> pstr \<Rightarrow> pstr" where
  "py_upper rt s = concat (map (upper_char rt) s)"



section \<open>Exceptions\<close>

text \<open>
  The exceptions the modelled code can meet. The payload is the text \<open>str(e)\<close> yields; a
  pydantic \<open>ValidationError\<close> carries the model's name, the field, the validator's message
  and the rejected input, from which the library writes its report.
\<close>

datatype py_exception =
    SQLAlchemyError pstr
  | ValidationError pstr pstr pstr pstr
  | KeyError pstr
  | ValueError pstr
  | TypeError pstr
  | AttributeError pstr
  | OtherException pstr

fun str_exception :: "runtime \<Rightarrow> py_exception \<Rightarrow> pstr" where
  "str_exception rt (SQLAlchemyError m) = m"
| "str_exception rt (ValidationError model field msg input) =
     validation_report rt model field msg input"
| "str_exception rt (KeyError m) = m"
| "str_exception rt (ValueError m) = m"
| "str_exception rt (TypeError m) = m"
| "str_exception rt (AttributeError m) = m"
| "str_exception rt (OtherException m) = m"

definition quoted :: "pstr \<Rightarrow> pstr" where
  "quoted s = [0x27] @ s @ [0x27]"

definition newline :: pstr where
  "newline = [0x0A]"

text \<open>
  \<open>str(i)\<close> and \<open>f"{i}"\<close> for a Python integer: the decimal digits, a minus sign when
  negative. An integer of more digits than the runtime's limit makes the conversion raise
  \<open>ValueError\<close>.
\<close>

definition too_many_digits :: "runtime \<Rightarrow> int \<Rightarrow> bool" where
  "too_many_digits rt i =
    (0 < int_max_str_digits rt \<and> int_max_str_digits rt < int (length (str_nat (nat \<bar>i\<bar>))))"

definition digits_exceeded :: "runtime \<Rightarrow> py_exception" where
  "digits_exceeded rt =
    ValueError (lit ''Exceeds the limit ('' @ str_nat (nat (int_max_str_digits rt)) @
      lit '' digits) for integer string conversion; use sys.set_int_max_str_digits() to increase the limit'')"

definition str_int :: "runtime \<Rightarrow> int \<Rightarrow> py_exception + pstr" where
  "str_int rt i =
    (if too_many_digits rt i then Inl (digits_exceeded rt)
     else if i < 0 then Inr (0x2D # str_nat (nat (- i)))
     else Inr (str_nat (nat i)))"

section \<open>The database engine\<close>

text \<open>
  The engine is outside the repository: it is a parameter of every operation. A cell of a
  result row is an integer, a text or NULL.
\<close>

datatype cell = IntV int | TextV pstr | NullV

text \<open>
  What \<open>conn.execute(text(query))\<close> does: it raises, or it yields a result that returns
  rows (\<open>result.keys()\<close>, \<open>result.fetchall()\<close>) or one that does not
  (\<open>result.rowcount\<close>).
\<close>

datatype exec_outcome =
    ReturnsRows "pstr list" "cell list list"
  | NoRows int
  | ExecRaises py_exception

text \<open>The descriptors \<open>inspector.get_columns\<close>, \<open>get_foreign_keys\<close> and \<open>get_indexes\<close> yield.\<close>

record column_info =
  ci_name :: pstr
  ci_type :: pstr
  ci_nullable :: bool
  ci_default :: "pstr option"

record fk_info =
  fki_constrained_columns :: "pstr list"
  fki_referred_table :: pstr
  fki_referred_columns :: "pstr list"
  fki_name :: "pstr option"

record idx_info =
  ii_name :: pstr
  ii_column_names :: "pstr list"
  ii_unique :: bool

text \<open>
  The inspector obtained by \<open>inspect(self.engine)\<close>; every call may raise. The
  primary-key constraint is a dictionary, of which the code reads the key
  \<open>constrained_columns\<close> only: \<open>None\<close> stands for a dictionary without that key.
\<close>

record inspector =
  get_table_names :: "py_exception + pstr list"
  get_columns :: "pstr \<Rightarrow> py_exception + column_info list"
  get_pk_constraint :: "pstr \<Rightarrow> py_exception + pstr list option"
  get_foreign_keys :: "pstr \<Rightarrow> py_exception + fk_info list"
  get_indexes :: "pstr \<Rightarrow> py_exception + idx_info list"

text \<open>
  The manager \<open>PostgreSQLManager\<close>: its configured database name and its engine, which
  offers inspection, connecting and the execution of a statement.
\<close>

record manager =
  config_database :: pstr
  inspect_engine :: "py_exception + inspector"
  engine_connect :: "py_exception option"
  conn_execute :: "pstr \<Rightarrow> exec_outcome"

text \<open>
  The one place where the engine is asked to run a statement:
  \<open>with self.engine.connect() as conn: result = conn.execute(text(query))\<close>. The outcome
  comes with the trace of what was asked of the connection; a failure to connect raises
  before any statement is handed over.
\<close>

datatype engine_call = Connect | Execute pstr

definition connect_and_execute :: "manager \<Rightarrow> pstr \<Rightarrow> exec_outcome \<times> engine_call list" where
  "connect_and_execute m query =
    (case engine_connect m of
       Some e \<Rightarrow> (ExecRaises e, [Connect])
     | None \<Rightarrow> (conn_execute m query, [Connect, Execute query]))"

section \<open>The query gateway\<close>

type_synonym row = "(pstr \<times> cell) list"

text \<open>
  \<open>dict(zip(columns, row))\<close>: a Python dictionary keeps the first position of a repeated
  key and its last value. The field \<open>execution_time\<close> of \<open>QueryResult\<close> is a wall-clock
  measurement and is left out.
\<close>

definition py_dict :: "('k \<times> 'v) list \<Rightarrow> ('k \<times> 'v) list" where
  "py_dict kvs = fold (\<lambda>(k, v) d. AList.update k v d) kvs []"

record QueryResult =
  qr_success :: bool
  qr_data :: "row list option"
  qr_error :: "pstr option"
  qr_rows_affected :: "int option"
  qr_columns :: "pstr list option"

definition execute_query :: "runtime \<Rightarrow> manager \<Rightarrow> pstr \<Rightarrow> QueryResult \<times> engine_call list" where
  "execute_query rt m query =
    (let (outcome, calls) = connect_and_execute m query in
     (case outcome of
        ReturnsRows columns rows \<Rightarrow>
          (\<lparr>qr_success = True, qr_data = Some (map (\<lambda>r. py_dict (zip columns r)) rows),
            qr_error = None, qr_rows_affected = None, qr_columns = Some columns\<rparr>, calls)
      | NoRows rowcount \<Rightarrow>
          (\<lparr>qr_success = True, qr_data = None, qr_error = None,
            qr_rows_affected = Some rowcount, qr_columns = None\<rparr>, calls)
      | ExecRaises e \<Rightarrow>
          (case e of
             SQLAlchemyError msg \<Rightarrow>
               (\<lparr>qr_success = False, qr_data = None, qr_error = Some (lit ''SQL Error: '' @ msg),
                 qr_rows_affected = None, qr_columns = None\<rparr>, calls)
           | _ \<Rightarrow>
               (\<lparr>qr_success = False, qr_data = None,
                 qr_error = Some (lit ''Unexpected error: '' @ str_exception rt e),
                 qr_rows_affected = None, qr_columns = None\<rparr>, calls))))"


section \<open>The guarded query tool\<close>








section \<open>Sampling\<close>

record SampleData =
  sd_table_name :: pstr
  sd_rows :: "row list"
  sd_total_rows_sampled :: int
  sd_columns :: "pstr list"

text \<open>\<open>SampleData(table_name=table_name)\<close>, the other fields at their defaults.\<close>

definition new_SampleData :: "pstr \<Rightarrow> SampleData" where
  "new_SampleData table_name =
    \<lparr>sd_table_name = table_name, sd_rows = [], sd_total_rows_sampled = 0, sd_columns = []\<rparr>"

text \<open>
  \<open>PostgreSQLManager.get_sample_data\<close>, with the trace of what was asked of the
  connection. When the limit cannot be written as text the statement is never built: the
  handler answers with the sample without rows.
\<close>

definition get_sample_data :: "runtime \<Rightarrow> manager \<Rightarrow> pstr \<Rightarrow> int \<Rightarrow> SampleData \<times> engine_call list" where
  "get_sample_data rt m table_name limit =
    (case str_int rt limit of
       Inl e \<Rightarrow> (new_SampleData table_name, [])
     | Inr digits \<Rightarrow>
         (let query = lit ''SELECT * FROM '' @ table_name @ lit '' LIMIT '' @ digits;
              (result, calls) = execute_query rt m query
          in (case qr_data result of
                Some (r # rs) \<Rightarrow>
                  (if qr_success result then
                     (\<lparr>sd_table_name = table_name, sd_rows = r # rs,
                       sd_total_rows_sampled = int (length (r # rs)),
                       sd_columns = (case qr_columns result of Some cs \<Rightarrow> cs | None \<Rightarrow> [])\<rparr>,
                      calls)
                   else (new_SampleData table_name, calls))
              | _ \<Rightarrow> (new_SampleData table_name, calls))))"

record SampleDataResponse =
  sdr_success :: bool
  sdr_table_name :: pstr
  sdr_sample_data :: "SampleData option"
  sdr_error :: "pstr option"

text \<open>
  The tool \<open>get_sample_data\<close> of the tool server, up to the response object it builds.
\<close>

definition tool_get_sample_data :: "runtime \<Rightarrow> manager \<Rightarrow> pstr \<Rightarrow> int \<Rightarrow> SampleDataResponse \<times> engine_call list" where
  "tool_get_sample_data rt m table_name limit =
    (let safe_limit = min limit 20;
         (sample_data, calls) = get_sample_data rt m table_name safe_limit
     in (\<lparr>sdr_success = True, sdr_table_name = table_name, sdr_sample_data = Some sample_data,
          sdr_error = None\<rparr>, calls))"

section \<open>The schema catalog\<close>

record DatabaseColumn =
  col_name :: pstr
  col_type :: pstr
  col_nullable :: bool
  col_default :: "pstr option"
  col_primary_key :: bool
  col_foreign_key :: "pstr option"
  col_max_length :: "int option"
  col_precision :: "int option"
  col_scale :: "int option"

record ForeignKey =
  fk_constrained_columns :: "pstr list"
  fk_referred_table :: pstr
  fk_referred_columns :: "pstr list"
  fk_name :: "pstr option"

record TableIndex =
  idx_name :: pstr
  idx_columns :: "pstr list"
  idx_unique :: bool

record TableSchema =
  ts_table_name :: pstr
  ts_columns :: "DatabaseColumn list"
  ts_primary_keys :: "pstr list"
  ts_foreign_keys :: "ForeignKey list"
  ts_indexes :: "TableIndex list"
  ts_row_count :: "int option"

record DatabaseSchema =
  db_database_name :: pstr
  db_tables :: "(pstr \<times> TableSchema) list"
  db_total_tables :: int

text \<open>The field validators: \<open>if not v or not v.strip(): raise ...; return v.strip()\<close>.\<close>

definition validate_name :: "pstr \<Rightarrow> py_exception + pstr" where
  "validate_name v =
    (if v = [] \<or> py_strip v = [] then
       Inl (ValidationError (lit ''DatabaseColumn'') (lit ''name'')
              (lit ''Column name cannot be empty'') v)
     else Inr (py_strip v))"

definition validate_table_name :: "pstr \<Rightarrow> py_exception + pstr" where
  "validate_table_name v =
    (if v = [] \<or> py_strip v = [] then
       Inl (ValidationError (lit ''TableSchema'') (lit ''table_name'')
              (lit ''Table name cannot be empty'') v)
     else Inr (py_strip v))"

text \<open>
  The constructor calls of the source: \<open>DatabaseColumn(name=, type=, nullable=, default=)\<close>,
  \<open>ForeignKey(...)\<close>, \<open>TableIndex(...)\<close> and \<open>TableSchema(...)\<close>, the fields not given
  taking their defaults. The two with a validator can raise.
\<close>

definition new_DatabaseColumn :: "pstr \<Rightarrow> pstr \<Rightarrow> bool \<Rightarrow> pstr option \<Rightarrow> py_exception + DatabaseColumn" where
  "new_DatabaseColumn name type nullable default_value =
    (case validate_name name of
       Inl e \<Rightarrow> Inl e
     | Inr n \<Rightarrow>
         Inr \<lparr>col_name = n, col_type = type, col_nullable = nullable, col_default = default_value,
              col_primary_key = False, col_foreign_key = None, col_max_length = None,
              col_precision = None, col_scale = None\<rparr>)"

definition new_ForeignKey :: "fk_info \<Rightarrow> ForeignKey" where
  "new_ForeignKey fk =
    \<lparr>fk_constrained_columns = fki_constrained_columns fk,
     fk_referred_table = fki_referred_table fk,
     fk_referred_columns = fki_referred_columns fk,
     fk_name = fki_name fk\<rparr>"

definition new_TableIndex :: "idx_info \<Rightarrow> TableIndex" where
  "new_TableIndex idx =
    \<lparr>idx_name = ii_name idx, idx_columns = ii_column_names idx, idx_unique = ii_unique idx\<rparr>"

definition new_TableSchema :: "pstr \<Rightarrow> DatabaseColumn list \<Rightarrow> pstr list \<Rightarrow> ForeignKey list \<Rightarrow> TableIndex list \<Rightarrow> py_exception + TableSchema" where
  "new_TableSchema table_name columns primary_keys foreign_keys indexes =
    (case validate_table_name table_name of
       Inl e \<Rightarrow> Inl e
     | Inr n \<Rightarrow>
         Inr \<lparr>ts_table_name = n, ts_columns = columns, ts_primary_keys = primary_keys,
              ts_foreign_keys = foreign_keys, ts_indexes = indexes, ts_row_count = None\<rparr>)"

text \<open>\<open>list_tables\<close>: any failure is caught and answered by the empty list.\<close>

definition list_tables :: "manager \<Rightarrow> py_exception + pstr list" where
  "list_tables m =
    (case inspect_engine m of
       Inl e \<Rightarrow> Inr []
     | Inr insp \<Rightarrow>
         (case get_table_names insp of
            Inl e \<Rightarrow> Inr []
          | Inr tables \<Rightarrow> Inr tables))"

text \<open>The loop that builds the columns, stopping at the first constructor that raises.\<close>

fun build_columns :: "column_info list \<Rightarrow> py_exception + DatabaseColumn list" where
  "build_columns [] = Inr []"
| "build_columns (col_info # rest) =
    (case new_DatabaseColumn (ci_name col_info) (ci_type col_info) (ci_nullable col_info)
            (ci_default col_info) of
       Inl e \<Rightarrow> Inl e
     | Inr column \<Rightarrow>
         (case build_columns rest of
            Inl e \<Rightarrow> Inl e
          | Inr columns \<Rightarrow> Inr (column # columns)))"

text \<open>The loop \<open>for col in columns: if col.name in primary_keys: col.primary_key = True\<close>.\<close>

definition mark_primary_keys :: "pstr list \<Rightarrow> DatabaseColumn list \<Rightarrow> DatabaseColumn list" where
  "mark_primary_keys primary_keys columns =
    map (\<lambda>col. if col_name col \<in> set primary_keys then col\<lparr>col_primary_key := True\<rparr> else col)
      columns"

text \<open>The body of the \<open>try\<close> block of \<open>get_table_schema\<close>.\<close>

definition get_table_schema_try :: "manager \<Rightarrow> pstr \<Rightarrow> py_exception + TableSchema" where
  "get_table_schema_try m table_name =
    (case inspect_engine m of
       Inl e \<Rightarrow> Inl e
     | Inr insp \<Rightarrow>
    (case get_columns insp table_name of
       Inl e \<Rightarrow> Inl e
     | Inr columns_info \<Rightarrow>
    (case build_columns columns_info of
       Inl e \<Rightarrow> Inl e
     | Inr columns \<Rightarrow>
    (case get_pk_constraint insp table_name of
       Inl e \<Rightarrow> Inl e
     | Inr pk_constraint \<Rightarrow>
         (let primary_keys = (case pk_constraint of Some ks \<Rightarrow> ks | None \<Rightarrow> []);
              columns' = mark_primary_keys primary_keys columns
          in
    (case get_foreign_keys insp table_name of
       Inl e \<Rightarrow> Inl e
     | Inr fk_info \<Rightarrow>
    (case get_indexes insp table_name of
       Inl e \<Rightarrow> Inl e
     | Inr indexes_info \<Rightarrow>
         new_TableSchema table_name columns' primary_keys (map new_ForeignKey fk_info)
           (map new_TableIndex indexes_info))))))))"

text \<open>
  \<open>get_table_schema\<close>: whatever the body raises is caught, and the handler builds
  \<open>TableSchema(table_name=table_name)\<close>, whose validator runs again.
\<close>

definition get_table_schema :: "manager \<Rightarrow> pstr \<Rightarrow> py_exception + TableSchema" where
  "get_table_schema m table_name =
    (case get_table_schema_try m table_name of
       Inr schema \<Rightarrow> Inr schema
     | Inl e \<Rightarrow> new_TableSchema table_name [] [] [] [])"

text \<open>
  \<open>get_database_schema\<close>: the loop stores each table's schema under its name
  (\<open>schema.tables[table] = table_schema\<close>); a fault of \<open>get_table_schema\<close> is not caught
  here. The count is the length of the list of names.
\<close>

fun collect_tables :: "manager \<Rightarrow> pstr list \<Rightarrow> (pstr \<times> TableSchema) list \<Rightarrow> py_exception + (pstr \<times> TableSchema) list" where
  "collect_tables m [] acc = Inr acc"
| "collect_tables m (table # rest) acc =
    (case get_table_schema m table of
       Inl e \<Rightarrow> Inl e
     | Inr table_schema \<Rightarrow> collect_tables m rest (AList.update table table_schema acc))"

definition get_database_schema :: "manager \<Rightarrow> py_exception + DatabaseSchema" where
  "get_database_schema m =
    (case list_tables m of
       Inl e \<Rightarrow> Inl e
     | Inr tables \<Rightarrow>
         (case collect_tables m tables [] of
            Inl e \<Rightarrow> Inl e
          | Inr entries \<Rightarrow>
              Inr \<lparr>db_database_name = config_database m, db_tables = entries,
                   db_total_tables = int (length tables)\<rparr>))"

section \<open>Table statistics\<close>

text \<open>
  The format \<open>{row_count:,}\<close>: an integer is written with a comma between groups of
  three digits, unless it has more digits than the runtime's limit; a text or \<open>None\<close>
  makes the format raise as well.
\<close>

definition pad3 :: "nat \<Rightarrow> pstr" where
  "pad3 k = [48 + int (k div 100), 48 + int ((k div 10) mod 10), 48 + int (k mod 10)]"

fun group3 :: "nat \<Rightarrow> pstr" where
  "group3 n = (if n < 1000 then str_nat n else group3 (n div 1000) @ lit '','' @ pad3 (n mod 1000))"

declare group3.simps [simp del]

definition format_thousands :: "runtime \<Rightarrow> cell \<Rightarrow> py_exception + pstr" where
  "format_thousands rt v =
    (case v of
       IntV i \<Rightarrow>
         (if too_many_digits rt i then Inl (digits_exceeded rt)
          else Inr (if i < 0 then 0x2D # group3 (nat (- i)) else group3 (nat i)))
     | TextV t \<Rightarrow>
         Inl (ValueError (lit ''Cannot specify '' @ quoted (lit '','') @ lit '' with '' @
                          quoted (lit ''s'') @ lit ''.''))
     | NullV \<Rightarrow> Inl (TypeError (lit ''unsupported format string passed to NoneType.__format__'')))"

text \<open>The bullet U+2022 of the source text.\<close>

definition bullet :: pstr where
  "bullet = [0x2022]"

text \<open>
  The inner \<open>try\<close> block of \<open>get_table_statistics\<close>: what it appends to the response.
  \<open>execute_query\<close> does not raise; the handler is reached from the subscript
  \<open>data[0]['row_count']\<close> and from the format only.
\<close>

definition row_count_lines :: "runtime \<Rightarrow> manager \<Rightarrow> pstr \<Rightarrow> pstr" where
  "row_count_lines rt m table_name =
    (let count_result =
           fst (execute_query rt m (lit ''SELECT COUNT(*) as row_count FROM '' @ table_name))
     in (case qr_data count_result of
           Some (r # rs) \<Rightarrow>
             (if qr_success count_result then
                (case map_of r (lit ''row_count'') of
                   None \<Rightarrow>
                     lit ''Row count: Unable to determine ('' @
                     str_exception rt (KeyError (quoted (lit ''row_count''))) @
                     lit '')'' @ newline @ newline
                 | Some row_count \<Rightarrow>
                     (case format_thousands rt row_count of
                        Inl e \<Rightarrow>
                          lit ''Row count: Unable to determine ('' @ str_exception rt e @
                          lit '')'' @ newline @ newline
                      | Inr formatted \<Rightarrow> lit ''Total Rows: '' @ formatted @ newline @ newline))
              else [])
         | _ \<Rightarrow> []))"

definition column_details :: "DatabaseColumn \<Rightarrow> pstr" where
  "column_details col =
    (lit ''  '' @ bullet @ lit '' '' @ col_name col @ lit '':'' @ newline) @
    (lit ''    - Type: '' @ col_type col @ newline) @
    (lit ''    - Nullable: '' @ (if col_nullable col then lit ''Yes'' else lit ''No'') @ newline) @
    (case col_default col of
       Some (d # ds) \<Rightarrow> lit ''    - Default: '' @ (d # ds) @ newline
     | _ \<Rightarrow> []) @
    (if col_primary_key col then lit ''    - Primary Key: Yes'' @ newline else []) @
    newline"

text \<open>
  The tool \<open>get_table_statistics\<close> of the tool server; it returns a text. The counts are
  lengths of lists, which \<open>len\<close> keeps far below the digit limit of the conversion.
\<close>

definition get_table_statistics :: "runtime \<Rightarrow> manager \<Rightarrow> pstr \<Rightarrow> pstr" where
  "get_table_statistics rt m table_name =
    (case get_table_schema m table_name of
       Inl e \<Rightarrow>
         lit ''Error getting statistics for table '' @ quoted table_name @ lit '': '' @
         str_exception rt e
     | Inr schema \<Rightarrow>
         (if ts_columns schema = [] then
            lit ''Table '' @ quoted table_name @ lit '' not found or has no columns''
          else
            (lit ''Statistics for table '' @ quoted table_name @ newline) @
            (replicate (length table_name + 25) 0x2D @ newline @ newline) @
            (lit ''Column Count: '' @ str_nat (length (ts_columns schema)) @ newline) @
            (lit ''Primary Keys: '' @ str_nat (length (ts_primary_keys schema)) @ newline) @
            (lit ''Foreign Keys: '' @ str_nat (length (ts_foreign_keys schema)) @ newline) @
            (lit ''Indexes: '' @ str_nat (length (ts_indexes schema)) @ newline @ newline) @
            row_count_lines rt m table_name @
            (lit ''Column Details:'' @ newline) @
            concat (map column_details (ts_columns schema))))"

section \<open>Concrete runtime and databases\<close>

text \<open>
  A runtime for the examples. Its tables are those of CPython on U+0080..U+00FF and on
  the few code points named (the dotless i U+0131, the long s U+017F, the capital I with
  dot U+0130 and the Kelvin sign U+212A); beyond these they are left trivial, and the
  sigma is taken as final at the end of a text of several characters. The digit limit is
  the default, and the report has the opening lines of the one pydantic writes.
\<close>

definition example_runtime :: runtime where
  "example_runtime =
    \<lparr>to_upper = (\<lambda>c. if c = 0xB5 then [0x39C] else if c = 0xDF then [83, 83]
                      else if c = 0xFF then [0x178] else if c = 0x131 then [73]
                      else if c = 0x17F then [83]
                      else if 0xE0 \<le> c \<and> c \<le> 0xFE \<and> c \<noteq> 0xF7 then [c - 32] else [c]),
     to_lower = (\<lambda>c. if c = 0x130 then [0x69, 0x307] else if c = 0x212A then [107]
                      else if 0xC0 \<le> c \<and> c \<le> 0xDE \<and> c \<noteq> 0xD7 then [c + 32] else [c]),
     final_sigma = (\<lambda>s i. 0 < i \<and> Suc i = length s),
     is_alnum = (\<lambda>c. c = 0xAA \<or> c = 0xB2 \<or> c = 0xB3 \<or> c = 0xB5 \<or> c = 0xB9 \<or> c = 0xBA \<or>
                      (0xBC \<le> c \<and> c \<le> 0xBE) \<or>
                      (0xC0 \<le> c \<and> c \<le> 0xFF \<and> c \<noteq> 0xD7 \<and> c \<noteq> 0xF7)),
     int_max_str_digits = 4300,
     validation_report = (\<lambda>model field msg input.
       lit ''1 validation error for '' @ model @ newline @ field @ newline @
       lit ''  Value error, '' @ msg @ lit '' [type=value_error, input_value='' @ quoted input @
       lit '', input_type=str]'')\<rparr>"

text \<open>
  A small database with the tables \<open>users\<close> and \<open>orders\<close>. Its engine answers the row
  count of \<open>users\<close> and a sample of two of its rows, and refuses every other statement.
\<close>

definition shop_columns :: "pstr \<Rightarrow> py_exception + column_info list" where
  "shop_columns t =
    (if t = lit ''users'' then
       Inr [\<lparr>ci_name = lit ''id'', ci_type = lit ''INTEGER'', ci_nullable = False,
             ci_default = None\<rparr>,
            \<lparr>ci_name = lit ''name'', ci_type = lit ''VARCHAR(50)'', ci_nullable = True,
             ci_default = None\<rparr>]
     else if t = lit ''orders'' then
       Inr [\<lparr>ci_name = lit ''id'', ci_type = lit ''INTEGER'', ci_nullable = False,
             ci_default = None\<rparr>,
            \<lparr>ci_name = lit ''user_id'', ci_type = lit ''INTEGER'', ci_nullable = False,
             ci_default = None\<rparr>]
     else Inl (OtherException t))"

definition shop_foreign_keys :: "pstr \<Rightarrow> py_exception + fk_info list" where
  "shop_foreign_keys t =
    (if t = lit ''orders'' then
       Inr [\<lparr>fki_constrained_columns = [lit ''user_id''], fki_referred_table = lit ''users'',
             fki_referred_columns = [lit ''id''], fki_name = Some (lit ''orders_user_id_fkey'')\<rparr>]
     else Inr [])"

definition shop_inspector :: inspector where
  "shop_inspector =
    \<lparr>get_table_names = Inr [lit ''users'', lit ''orders''],
     get_columns = shop_columns,
     get_pk_constraint = (\<lambda>t. Inr (Some [lit ''id''])),
     get_foreign_keys = shop_foreign_keys,
     get_indexes = (\<lambda>t. Inr [])\<rparr>"

definition shop_execute :: "pstr \<Rightarrow> exec_outcome" where
  "shop_execute q =
    (if q = lit ''SELECT COUNT(*) as row_count FROM users'' then
       ReturnsRows [lit ''row_count''] [[IntV 3]]
     else if q = lit ''SELECT * FROM users LIMIT 2'' then
       ReturnsRows [lit ''id'', lit ''name'']
         [[IntV 1, TextV (lit ''ann'')], [IntV 2, TextV (lit ''bob'')]]
     else ExecRaises (SQLAlchemyError (lit ''permission denied'')))"

definition shop_manager :: manager where
  "shop_manager =
    \<lparr>config_database = lit ''shop'', inspect_engine = Inr shop_inspector, engine_connect = None,
     conn_execute = shop_execute\<rparr>"

text \<open>A manager whose engine has become unreachable.\<close>

definition unreachable_manager :: manager where
  "unreachable_manager =
    \<lparr>config_database = lit ''shop'',
     inspect_engine = Inl (SQLAlchemyError (lit ''connection refused'')),
     engine_connect = Some (SQLAlchemyError (lit ''connection refused'')),
     conn_execute = (\<lambda>q. ExecRaises (SQLAlchemyError (lit ''connection refused'')))\<rparr>"

text \<open>A catalog that reports the name \<open>users\<close> twice.\<close>

definition repeating_manager :: manager where
  "repeating_manager =
    shop_manager\<lparr>inspect_engine :=
      Inr (shop_inspector\<lparr>get_table_names := Inr [lit ''users'', lit ''users'']\<rparr>)\<rparr>"

text \<open>
  A table \<open>t\<close> whose only column, the primary key, is named by the quoted identifier
  \<open>" id "\<close>, with a space on either side.
\<close>

definition padded_manager :: manager where
  "padded_manager =
    \<lparr>config_database = lit ''shop'',
     inspect_engine = Inr
       \<lparr>get_table_names = Inr [lit ''t''],
        get_columns = (\<lambda>t. Inr [\<lparr>ci_name = lit '' id '', ci_type = lit ''INTEGER'',
                                  ci_nullable = False, ci_default = None\<rparr>]),
        get_pk_constraint = (\<lambda>t. Inr (Some [lit '' id ''])),
        get_foreign_keys = (\<lambda>t. Inr []),
        get_indexes = (\<lambda>t. Inr [])\<rparr>,
     engine_connect = None,
     conn_execute = (\<lambda>q. ExecRaises (SQLAlchemyError (lit ''permission denied'')))\<rparr>"

text \<open>
  An engine holding a table \<open>t\<close> of 25 rows. As an SQL engine does, it reads a statement
  up to the comment mark \<open>--\<close>.
\<close>

fun strip_line_comment :: "pstr \<Rightarrow> pstr" where
  "strip_line_comment (a # b # cs) =
    (if a = 0x2D \<and> b = 0x2D then [] else a # strip_line_comment (b # cs))"
| "strip_line_comment cs = cs"

definition rows25_execute :: "pstr \<Rightarrow> exec_outcome" where
  "rows25_execute q =
    (if strip_line_comment q = lit ''SELECT * FROM t LIMIT 25 '' then
       ReturnsRows [lit ''id''] (map (\<lambda>i. [IntV i]) [1..25])
     else ExecRaises (SQLAlchemyError (lit ''syntax error'')))"

definition rows25_manager :: manager where
  "rows25_manager = shop_manager\<lparr>conn_execute := rows25_execute\<rparr>"

text \<open>
  A table \<open>entries\<close> that refers to the table \<open>balances\<close>; the catalog reports the
  foreign keys it is given.
\<close>

definition ledger_manager :: "fk_info list \<Rightarrow> manager" where
  "ledger_manager fks =
    \<lparr>config_database = lit ''ledger'',
     inspect_engine = Inr
       \<lparr>get_table_names = Inr [lit ''balances'', lit ''entries''],
        get_columns = (\<lambda>t.
          if t = lit ''entries'' then
            Inr [\<lparr>ci_name = lit ''account_id'', ci_type = lit ''INTEGER'', ci_nullable = False,
                  ci_default = None\<rparr>,
                 \<lparr>ci_name = lit ''period'', ci_type = lit ''INTEGER'', ci_nullable = False,
                  ci_default = None\<rparr>]
          else
            Inr [\<lparr>ci_name = lit ''account'', ci_type = lit ''INTEGER'', ci_nullable = False,
                  ci_default = None\<rparr>,
                 \<lparr>ci_name = lit ''month'', ci_type = lit ''INTEGER'', ci_nullable = False,
                  ci_default = None\<rparr>]),
        get_pk_constraint = (\<lambda>t. Inr (Some [])),
        get_foreign_keys = (\<lambda>t. if t = lit ''entries'' then Inr fks else Inr []),
        get_indexes = (\<lambda>t. Inr [])\<rparr>,
     engine_connect = None,
     conn_execute = (\<lambda>q. ExecRaises (SQLAlchemyError (lit ''permission denied'')))\<rparr>"

text \<open>
  A foreign key over two columns, paired with the two columns it refers to; and a report
  in which the two lists differ in length.
\<close>

definition paired_key :: fk_info where
  "paired_key =
    \<lparr>fki_constrained_columns = [lit ''account_id'', lit ''period''],
     fki_referred_table = lit ''balances'',
     fki_referred_columns = [lit ''account'', lit ''month''],
     fki_name = Some (lit ''entries_balance_fkey'')\<rparr>"

definition lopsided_key :: fk_info where
  "lopsided_key =
    \<lparr>fki_constrained_columns = [lit ''account_id'', lit ''period''],
     fki_referred_table = lit ''balances'',
     fki_referred_columns = [lit ''account''],
     fki_name = None\<rparr>"

text \<open>What the engine's catalog reports as the foreign keys of a table, if it answers.\<close>

definition reported_foreign_keys :: "manager \<Rightarrow> pstr \<Rightarrow> fk_info list" where
  "reported_foreign_keys m table_name =
    (case inspect_engine m of
       Inl e \<Rightarrow> []
     | Inr insp \<Rightarrow> (case get_foreign_keys insp table_name of Inl e \<Rightarrow> [] | Inr fks \<Rightarrow> fks))"

text \<open>The schemas and the snapshot that the catalog of the shop database describes.\<close>

definition users_schema :: TableSchema where
  "users_schema =
    \<lparr>ts_table_name = lit ''users'',
     ts_columns =
       [\<lparr>col_name = lit ''id'', col_type = lit ''INTEGER'', col_nullable = False,
          col_default = None, col_primary_key = True, col_foreign_key = None,
          col_max_length = None, col_precision = None, col_scale = None\<rparr>,
        \<lparr>col_name = lit ''name'', col_type = lit ''VARCHAR(50)'', col_nullable = True,
          col_default = None, col_primary_key = False, col_foreign_key = None,
          col_max_length = None, col_precision = None, col_scale = None\<rparr>],
     ts_primary_keys = [lit ''id''], ts_foreign_keys = [], ts_indexes = [],
     ts_row_count = None\<rparr>"

definition orders_schema :: TableSchema where
  "orders_schema =
    \<lparr>ts_table_name = lit ''orders'',
     ts_columns =
       [\<lparr>col_name = lit ''id'', col_type = lit ''INTEGER'', col_nullable = False,
          col_default = None, col_primary_key = True, col_foreign_key = None,
          col_max_length = None, col_precision = None, col_scale = None\<rparr>,
        \<lparr>col_name = lit ''user_id'', col_type = lit ''INTEGER'', col_nullable = False,
          col_default = None, col_primary_key = False, col_foreign_key = None,
          col_max_length = None, col_precision = None, col_scale = None\<rparr>],
     ts_primary_keys = [lit ''id''],
     ts_foreign_keys =
       [\<lparr>fk_constrained_columns = [lit ''user_id''], fk_referred_table = lit ''users'',
          fk_referred_columns = [lit ''id''], fk_name = Some (lit ''orders_user_id_fkey'')\<rparr>],
     ts_indexes = [], ts_row_count = None\<rparr>"

definition shop_schema :: DatabaseSchema where
  "shop_schema =
    \<lparr>db_database_name = lit ''shop'',
     db_tables = [(lit ''users'', users_schema), (lit ''orders'', orders_schema)],
     db_total_tables = 2\<rparr>"


section \<open>Facts about trimming and the SELECT gate\<close>


lemma all_space_strip: "(\<forall>c\<in>set t. is_space c) \<Longrightarrow> py_strip t = []"
proof -
  assume "\<forall>c\<in>set t. is_space c"
  then have "dropWhile is_space t = []" by (simp add: dropWhile_eq_Nil_conv)
  then have "py_strip t = py_rstrip []"
    unfolding py_strip_def py_lstrip_def by (rule arg_cong)
  then show ?thesis by (simp add: py_rstrip_def)
qed




lemma lit_append: "lit (a @ b) = lit a @ lit b"
  by (simp add: lit_def)

lemma lit_SELECT: "lit ''SELECT'' = [83, 69, 76, 69, 67, 84]"
  by code_simp

lemma py_upper_append: "py_upper rt (a @ b) = py_upper rt a @ py_upper rt b"
  by (simp add: py_upper_def)

lemma py_upper_SELECT: "py_upper rt (lit ''SELECT'') = lit ''SELECT''"
  unfolding lit_SELECT by (simp add: py_upper_def upper_char_def ascii_upper_def)


text \<open>
  The gate follows Python beyond ASCII: a leading no-break space is trimmed, and the long
  s U+017F becomes S in upper case, so both of these statements pass.
\<close>

lemma gate_trims_no_break_space:
  "startswith (py_upper rt (py_strip ([0xA0] @ lit ''SELECT 1''))) (lit ''SELECT'')"
proof -
  have "py_strip ([0xA0] @ lit ''SELECT 1'') = lit ''SELECT'' @ lit '' 1''" by code_simp
  then show ?thesis
    by (simp add: startswith_def py_upper_append py_upper_SELECT)
qed

lemma gate_raises_long_s:
  "startswith (py_upper example_runtime (py_strip ([0x17F] @ lit ''elect 1''))) (lit ''SELECT'')"
  by code_simp

section \<open>The query gateway and the sampler\<close>








text \<open>
  A limit that is not negative is clamped into 0..20, which the conversion never refuses
  (the digit limit cannot be set below 640).
\<close>

lemma too_many_digits_small:
  assumes "int_max_str_digits rt \<le> 0 \<or> 2 \<le> int_max_str_digits rt" and "0 \<le> i" and "i \<le> 20"
  shows "\<not> too_many_digits rt i"
proof -
  have "nat \<bar>i\<bar> < 100" using assms(2,3) by simp
  then have "length (str_nat (nat \<bar>i\<bar>)) \<le> 2"
    by (subst str_nat.simps, subst str_nat.simps) simp
  then show ?thesis using assms(1) by (auto simp: too_many_digits_def)
qed

lemma str_int_clamped:
  assumes "int_max_str_digits rt \<le> 0 \<or> 2 \<le> int_max_str_digits rt" and "0 \<le> limit"
  shows "str_int rt (min limit 20) = Inr (str_nat (nat (min limit 20)))"
proof -
  have "\<not> too_many_digits rt (min limit 20)"
    using assms by (intro too_many_digits_small) simp_all
  then show ?thesis using assms(2) by (simp add: str_int_def)
qed













text \<open>
  Claim C2. The limit written into the statement is \<open>min limit 20\<close> (see
  \<open>tool_get_sample_data_calls\<close>), but the number of rows is left to the engine. With the
  table name \<open>t LIMIT 25 --\<close> and the limit 5 the statement is
  \<open>SELECT * FROM t LIMIT 25 -- LIMIT 5\<close>, whose own limit sits behind a comment mark: the
  sample holds 25 rows, more than \<open>min 5 20\<close>.
\<close>

theorem tool_get_sample_data_limit_bypassed:
  "snd (tool_get_sample_data example_runtime rows25_manager (lit ''t LIMIT 25 --'') 5) =
     [Connect, Execute (lit ''SELECT * FROM t LIMIT 25 -- LIMIT 5'')] \<and>
   sdr_sample_data
     (fst (tool_get_sample_data example_runtime rows25_manager (lit ''t LIMIT 25 --'') 5)) \<noteq> None \<and>
   length (sd_rows (the (sdr_sample_data
     (fst (tool_get_sample_data example_runtime rows25_manager (lit ''t LIMIT 25 --'') 5))))) = 25 \<and>
   \<not> (25 \<le> min (5::int) 20)"
  by code_simp

section \<open>Properties of the schema catalog\<close>

lemma validate_table_name_blank:
  "(\<forall>c\<in>set t. is_space c) \<Longrightarrow>
     validate_table_name t =
       Inl (ValidationError (lit ''TableSchema'') (lit ''table_name'')
              (lit ''Table name cannot be empty'') t)"
  by (simp add: validate_table_name_def all_space_strip)


lemma new_TableSchema_blank:
  "(\<forall>c\<in>set t. is_space c) \<Longrightarrow>
     new_TableSchema t cs pks fks idxs =
       Inl (ValidationError (lit ''TableSchema'') (lit ''table_name'')
              (lit ''Table name cannot be empty'') t)"
  by (simp add: new_TableSchema_def validate_table_name_blank)

lemma get_table_schema_try_blank:
  assumes "\<forall>c\<in>set t. is_space c"
  shows "\<exists>e. get_table_schema_try m t = Inl e"
  unfolding get_table_schema_try_def Let_def
  by (simp add: new_TableSchema_blank [OF assms] split: sum.split)

text \<open>
  Claim C9. For a table name that is empty or all whitespace (any of Python's whitespace
  characters, those beyond ASCII included), \<open>get_table_schema\<close> raises the validation
  fault: the body of the \<open>try\<close> block cannot succeed, and the handler's own
  \<open>TableSchema(table_name=table_name)\<close> is rejected by the same validator. No empty
  schema is returned.
\<close>

theorem get_table_schema_blank_name_raises:
  assumes "\<forall>c\<in>set table_name. is_space c"
  shows "get_table_schema m table_name =
           Inl (ValidationError (lit ''TableSchema'') (lit ''table_name'')
                  (lit ''Table name cannot be empty'') table_name)"
proof -
  obtain e where "get_table_schema_try m table_name = Inl e"
    using get_table_schema_try_blank [OF assms] by blast
  then show ?thesis
    by (simp add: get_table_schema_def new_TableSchema_blank [OF assms])
qed

theorem get_table_schema_blank_name_raises_witness:
  "list_all is_space [0x20, 0xA0, 0x2003, 0x09] \<and>
   get_table_schema shop_manager [0x20, 0xA0, 0x2003, 0x09] =
     Inl (ValidationError (lit ''TableSchema'') (lit ''table_name'')
            (lit ''Table name cannot be empty'') [0x20, 0xA0, 0x2003, 0x09]) \<and>
   get_table_schema shop_manager [] =
     Inl (ValidationError (lit ''TableSchema'') (lit ''table_name'')
            (lit ''Table name cannot be empty'') [])"
proof -
  have h: "\<forall>c\<in>set [0x20, 0xA0, 0x2003, 0x09]. is_space c" by code_simp
  have a: "list_all is_space [0x20, 0xA0, 0x2003, 0x09]" using h unfolding list_all_iff .
  have n: "\<forall>c\<in>set []. is_space c" by simp
  from a get_table_schema_blank_name_raises [OF h, of shop_manager]
    get_table_schema_blank_name_raises [OF n, of shop_manager]
  show ?thesis by (intro conjI)
qed




text \<open>
  Claim C6, as the code has it. When the catalog query behind \<open>list_tables\<close> fails (the
  inspector cannot be obtained, or its table listing raises), \<open>list_tables\<close> does not
  raise: it returns the empty list, and \<open>get_database_schema\<close> then yields a snapshot
  with no tables and the count 0.
\<close>

theorem list_tables_failure_is_empty:
  assumes "inspect_engine m = Inl e \<or>
           (\<exists>insp. inspect_engine m = Inr insp \<and> get_table_names insp = Inl e)"
  shows "list_tables m = Inr [] \<and>
         get_database_schema m =
           Inr \<lparr>db_database_name = config_database m, db_tables = [], db_total_tables = 0\<rparr>"
proof -
  have l: "list_tables m = Inr []"
    using assms by (auto simp: list_tables_def)
  then show ?thesis by (simp add: get_database_schema_def)
qed

theorem list_tables_failure_is_empty_witness:
  "inspect_engine unreachable_manager = Inl (SQLAlchemyError (lit ''connection refused'')) \<and>
   list_tables unreachable_manager = Inr [] \<and>
   get_database_schema unreachable_manager =
     Inr \<lparr>db_database_name = lit ''shop'', db_tables = [], db_total_tables = 0\<rparr>"
proof -
  have h: "inspect_engine unreachable_manager = Inl (SQLAlchemyError (lit ''connection refused''))"
    by (simp add: unreachable_manager_def)
  have c: "config_database unreachable_manager = lit ''shop''"
    by (simp add: unreachable_manager_def)
  have "list_tables unreachable_manager = Inr [] \<and>
        get_database_schema unreachable_manager =
          Inr \<lparr>db_database_name = config_database unreachable_manager, db_tables = [],
               db_total_tables = 0\<rparr>"
    using disjI1 [OF h] by (rule list_tables_failure_is_empty)
  then show ?thesis unfolding c using h by simp
qed

theorem list_tables_raises_counterexample:
  "inspect_engine unreachable_manager = Inl (SQLAlchemyError (lit ''connection refused'')) \<and>
   list_tables unreachable_manager = Inr [] \<and>
   \<not> isl (list_tables unreachable_manager)"
proof -
  have "inspect_engine unreachable_manager = Inl (SQLAlchemyError (lit ''connection refused''))"
    by (simp add: unreachable_manager_def)
  moreover have "list_tables unreachable_manager = Inr []" by code_simp
  moreover have "\<not> isl (list_tables unreachable_manager)" by code_simp
  ultimately show ?thesis by (intro conjI)
qed

lemma list_tables_returns: "\<exists>tables. list_tables m = Inr tables"
  by (simp add: list_tables_def split: sum.split)

lemma collect_tables_keys:
  "collect_tables m ts acc = Inr r \<Longrightarrow> distinct (map fst acc) \<Longrightarrow>
     distinct (map fst r) \<and> fst ` set r = fst ` set acc \<union> set ts"
proof (induction ts arbitrary: acc)
  case Nil
  then show ?case by simp
next
  case (Cons t ts)
  from Cons.prems(1) obtain sch where g: "get_table_schema m t = Inr sch"
    and c: "collect_tables m ts (AList.update t sch acc) = Inr r"
    by (auto split: sum.splits)
  have "distinct (map fst (AList.update t sch acc))"
    using Cons.prems(2) by (rule AList.distinct_update)
  from Cons.IH [OF c this] show ?case
    by (auto simp: AList.dom_update)
qed

lemma collect_tables_length:
  assumes "collect_tables m ts [] = Inr r"
  shows "length r = card (set ts)"
proof -
  have d: "distinct (map fst r)" and k: "fst ` set r = set ts"
    using collect_tables_keys [OF assms] by auto
  have "card (set (map fst r)) = length (map fst r)" using d by (rule distinct_card)
  then show ?thesis using k by simp
qed

text \<open>
  Claim C3, as the code has it. In a snapshot returned by \<open>get_database_schema\<close> the
  count is the length of the list of names that \<open>list_tables\<close> gave, the mapping has one
  entry per distinct name, and the count equals the number of entries exactly when no name
  is repeated in the list.
\<close>

theorem get_database_schema_total_tables:
  assumes "get_database_schema m = Inr s" and "list_tables m = Inr tables"
  shows "db_total_tables s = int (length tables) \<and>
         length (db_tables s) = card (set tables) \<and>
         (db_total_tables s = int (length (db_tables s)) \<longleftrightarrow> distinct tables)"
proof -
  from assms obtain r where c: "collect_tables m tables [] = Inr r"
    and s: "s = \<lparr>db_database_name = config_database m, db_tables = r,
                  db_total_tables = int (length tables)\<rparr>"
    by (auto simp: get_database_schema_def split: sum.splits)
  have l: "length r = card (set tables)" using c by (rule collect_tables_length)
  have "(length tables = card (set tables)) = distinct tables"
    using card_distinct [of tables] distinct_card [of tables] by auto
  then show ?thesis using s l by simp
qed

theorem get_database_schema_total_tables_witness:
  "get_database_schema shop_manager = Inr shop_schema \<and>
   list_tables shop_manager = Inr [lit ''users'', lit ''orders''] \<and>
   db_total_tables shop_schema = int (length [lit ''users'', lit ''orders'']) \<and>
   length (db_tables shop_schema) = card (set [lit ''users'', lit ''orders'']) \<and>
   (db_total_tables shop_schema = int (length (db_tables shop_schema)) \<longleftrightarrow>
      distinct [lit ''users'', lit ''orders''])"
proof -
  have h1: "get_database_schema shop_manager = Inr shop_schema" by code_simp
  have h2: "list_tables shop_manager = Inr [lit ''users'', lit ''orders'']" by code_simp
  show ?thesis
    using h1 h2 get_database_schema_total_tables [OF h1 h2] by (intro conjI) blast+
qed

theorem get_database_schema_total_tables_counterexample:
  "list_tables repeating_manager = Inr [lit ''users'', lit ''users''] \<and>
   get_database_schema repeating_manager =
     Inr \<lparr>db_database_name = lit ''shop'', db_tables = [(lit ''users'', users_schema)],
          db_total_tables = 2\<rparr> \<and>
   (2::int) \<noteq> int (length [(lit ''users'', users_schema)])"
  by code_simp

lemma get_table_schema_try_foreign_keys:
  "get_table_schema_try m t = Inr s \<Longrightarrow>
     ts_foreign_keys s = map new_ForeignKey (reported_foreign_keys m t)"
  unfolding get_table_schema_try_def reported_foreign_keys_def new_TableSchema_def Let_def
  by (simp split: sum.splits) auto

lemma handler_foreign_keys:
  "new_TableSchema t [] [] [] [] = Inr s \<Longrightarrow> ts_foreign_keys s = []"
  by (auto simp: new_TableSchema_def split: sum.splits)

text \<open>
  Claim C8, as the code has it. \<open>ForeignKey\<close> has no validator and the lists are copied
  without a check. When the body of the \<open>try\<close> block succeeds, the foreign keys of the
  schema are the reported ones, in the reported order, each with its list of constrained
  columns, its referred table and its list of referred columns unchanged, so the
  positional pairing the engine reported is kept; the two lists of every returned key
  have equal length exactly when those of every reported key have. The schema the handler
  builds has no foreign keys.
\<close>

theorem get_table_schema_foreign_keys_copied:
  assumes "get_table_schema m table_name = Inr s"
  shows "(case get_table_schema_try m table_name of
            Inr s' \<Rightarrow>
              map (\<lambda>fk. (fk_constrained_columns fk, fk_referred_table fk, fk_referred_columns fk))
                (ts_foreign_keys s) =
              map (\<lambda>i. (fki_constrained_columns i, fki_referred_table i, fki_referred_columns i))
                (reported_foreign_keys m table_name) \<and>
              (list_all (\<lambda>fk. length (fk_constrained_columns fk) = length (fk_referred_columns fk))
                 (ts_foreign_keys s) \<longleftrightarrow>
               list_all (\<lambda>i. length (fki_constrained_columns i) = length (fki_referred_columns i))
                 (reported_foreign_keys m table_name))
          | Inl e \<Rightarrow> ts_foreign_keys s = [])"
proof (cases "get_table_schema_try m table_name")
  case (Inl e)
  with assms have "ts_foreign_keys s = []"
    by (simp add: get_table_schema_def handler_foreign_keys)
  with Inl show ?thesis by simp
next
  case (Inr s')
  with assms have "s' = s" by (simp add: get_table_schema_def)
  with Inr have "ts_foreign_keys s = map new_ForeignKey (reported_foreign_keys m table_name)"
    by (simp add: get_table_schema_try_foreign_keys)
  with Inr show ?thesis by (simp add: new_ForeignKey_def comp_def list_all_iff)
qed

theorem get_table_schema_foreign_keys_copied_witness:
  "map (\<lambda>fk. (fk_constrained_columns fk, fk_referred_table fk, fk_referred_columns fk))
     (ts_foreign_keys (projr (get_table_schema (ledger_manager [paired_key]) (lit ''entries'')))) =
     [([lit ''account_id'', lit ''period''], lit ''balances'', [lit ''account'', lit ''month''])]"
proof -
  let ?m = "ledger_manager [paired_key]"
  let ?s = "projr (get_table_schema ?m (lit ''entries''))"
  have h: "get_table_schema ?m (lit ''entries'') = Inr ?s" by code_simp
  have i: "\<not> isl (get_table_schema_try ?m (lit ''entries''))" by code_simp
  have r: "map (\<lambda>i. (fki_constrained_columns i, fki_referred_table i, fki_referred_columns i))
             (reported_foreign_keys ?m (lit ''entries'')) =
           [([lit ''account_id'', lit ''period''], lit ''balances'',
             [lit ''account'', lit ''month''])]"
    by code_simp
  from get_table_schema_foreign_keys_copied [OF h] i
  have "map (\<lambda>fk. (fk_constrained_columns fk, fk_referred_table fk, fk_referred_columns fk))
          (ts_foreign_keys ?s) =
        map (\<lambda>i. (fki_constrained_columns i, fki_referred_table i, fki_referred_columns i))
          (reported_foreign_keys ?m (lit ''entries''))"
    by (auto split: sum.splits)
  then show ?thesis unfolding r .
qed

theorem get_table_schema_foreign_keys_counterexample:
  "get_table_schema (ledger_manager [lopsided_key]) (lit ''entries'') =
     Inr \<lparr>ts_table_name = lit ''entries'',
          ts_columns =
            [\<lparr>col_name = lit ''account_id'', col_type = lit ''INTEGER'', col_nullable = False,
               col_default = None, col_primary_key = False, col_foreign_key = None,
               col_max_length = None, col_precision = None, col_scale = None\<rparr>,
             \<lparr>col_name = lit ''period'', col_type = lit ''INTEGER'', col_nullable = False,
               col_default = None, col_primary_key = False, col_foreign_key = None,
               col_max_length = None, col_precision = None, col_scale = None\<rparr>],
          ts_primary_keys = [],
          ts_foreign_keys =
            [\<lparr>fk_constrained_columns = [lit ''account_id'', lit ''period''],
               fk_referred_table = lit ''balances'',
               fk_referred_columns = [lit ''account''], fk_name = None\<rparr>],
          ts_indexes = [], ts_row_count = None\<rparr> \<and>
   length [lit ''account_id'', lit ''period''] \<noteq> length [lit ''account'']"
  by code_simp

lemma build_columns_unflagged:
  "build_columns cis = Inr cs \<Longrightarrow> \<forall>c\<in>set cs. \<not> col_primary_key c"
  by (induction cis arbitrary: cs)
     (auto simp: new_DatabaseColumn_def split: sum.splits)

lemma build_columns_names:
  "build_columns cis = Inr cs \<Longrightarrow> map col_name cs = map (\<lambda>ci. py_strip (ci_name ci)) cis"
  by (induction cis arbitrary: cs)
     (auto simp: new_DatabaseColumn_def validate_name_def split: sum.splits if_splits)

lemma mark_primary_keys_mem:
  "c' \<in> set (mark_primary_keys pks cs) \<longleftrightarrow>
     (\<exists>c\<in>set cs. c' = (if col_name c \<in> set pks then c\<lparr>col_primary_key := True\<rparr> else c))"
  by (auto simp: mark_primary_keys_def)

lemma mark_primary_keys_flagged:
  assumes "\<forall>c\<in>set cs. \<not> col_primary_key c"
  shows "{col_name c | c. c \<in> set (mark_primary_keys pks cs) \<and> col_primary_key c} =
         set (map col_name cs) \<inter> set pks"
proof (intro equalityI subsetI)
  fix n
  assume "n \<in> {col_name c | c. c \<in> set (mark_primary_keys pks cs) \<and> col_primary_key c}"
  then obtain c' where m: "c' \<in> set (mark_primary_keys pks cs)" and f: "col_primary_key c'"
    and n: "n = col_name c'" by blast
  from m obtain c where c: "c \<in> set cs"
    and c': "c' = (if col_name c \<in> set pks then c\<lparr>col_primary_key := True\<rparr> else c)"
    unfolding mark_primary_keys_mem by blast
  have "col_name c \<in> set pks"
  proof (rule ccontr)
    assume "col_name c \<notin> set pks"
    with c' have "c' = c" by simp
    with f c assms show False by blast
  qed
  with c c' n show "n \<in> set (map col_name cs) \<inter> set pks" by simp
next
  fix n
  assume "n \<in> set (map col_name cs) \<inter> set pks"
  then obtain c where c: "c \<in> set cs" and n: "n = col_name c" and p: "col_name c \<in> set pks"
    by auto
  have "c\<lparr>col_primary_key := True\<rparr> \<in> set (mark_primary_keys pks cs)"
    unfolding mark_primary_keys_mem using c p by (intro bexI [of _ c]) simp_all
  moreover have "col_primary_key (c\<lparr>col_primary_key := True\<rparr>)" by simp
  moreover have "n = col_name (c\<lparr>col_primary_key := True\<rparr>)" using n by simp
  ultimately show "n \<in> {col_name c | c. c \<in> set (mark_primary_keys pks cs) \<and> col_primary_key c}"
    by blast
qed

lemma get_table_schema_try_columns:
  assumes "get_table_schema_try m t = Inr s"
  shows "\<exists>insp cis cs pk. inspect_engine m = Inr insp \<and> get_columns insp t = Inr cis \<and>
           build_columns cis = Inr cs \<and> get_pk_constraint insp t = Inr pk \<and>
           ts_primary_keys s = (case pk of Some ks \<Rightarrow> ks | None \<Rightarrow> []) \<and>
           ts_columns s = mark_primary_keys (ts_primary_keys s) cs"
  using assms
  unfolding get_table_schema_try_def new_TableSchema_def Let_def
  by (simp split: sum.splits) auto

text \<open>
  What holds of every schema that \<open>get_table_schema\<close> returns: a column is flagged only
  if its name is in the primary-key list.
\<close>

lemma get_table_schema_flagged_subset:
  assumes "get_table_schema m t = Inr s"
  shows "{col_name c | c. c \<in> set (ts_columns s) \<and> col_primary_key c} \<subseteq> set (ts_primary_keys s)"
proof (cases "get_table_schema_try m t")
  case (Inl e)
  with assms have "ts_columns s = []"
    by (auto simp: get_table_schema_def new_TableSchema_def split: sum.splits)
  then show ?thesis by simp
next
  case (Inr s')
  with assms have "get_table_schema_try m t = Inr s" by (simp add: get_table_schema_def)
  from get_table_schema_try_columns [OF this] obtain cs where
    u: "\<forall>c\<in>set cs. \<not> col_primary_key c" and
    c: "ts_columns s = mark_primary_keys (ts_primary_keys s) cs"
    using build_columns_unflagged by blast
  show ?thesis unfolding c mark_primary_keys_flagged [OF u] by simp
qed

text \<open>
  The two sets agree when every name of the primary-key list is the trimmed name of a
  reported column.
\<close>

lemma get_table_schema_flagged_eq:
  assumes "get_table_schema_try m t = Inr s"
    and "inspect_engine m = Inr insp" and "get_columns insp t = Inr cis"
    and "set (ts_primary_keys s) \<subseteq> set (map (\<lambda>ci. py_strip (ci_name ci)) cis)"
  shows "{col_name c | c. c \<in> set (ts_columns s) \<and> col_primary_key c} = set (ts_primary_keys s)"
proof -
  from get_table_schema_try_columns [OF assms(1)] assms(2,3) obtain cs where
    b: "build_columns cis = Inr cs" and
    c: "ts_columns s = mark_primary_keys (ts_primary_keys s) cs"
    by auto
  have u: "\<forall>c\<in>set cs. \<not> col_primary_key c" using b by (rule build_columns_unflagged)
  have n: "map col_name cs = map (\<lambda>ci. py_strip (ci_name ci)) cis"
    using b by (rule build_columns_names)
  show ?thesis unfolding c mark_primary_keys_flagged [OF u] n using assms(4) by auto
qed

text \<open>
  Claim C4. The column validator stores a name trimmed, while the primary-key list keeps
  the names as the engine gave them, and the flag is set by looking the trimmed name up in
  that list. For the table \<open>t\<close> whose key column is named \<open>" id "\<close> the schema has the
  primary key \<open>" id "\<close> and a single column \<open>id\<close> that is not flagged: the primary-key
  names are \<open>{" id "}\<close>, the flagged column names are empty.
\<close>

theorem get_table_schema_padded_primary_key:
  "get_table_schema padded_manager (lit ''t'') =
     Inr \<lparr>ts_table_name = lit ''t'',
          ts_columns = [\<lparr>col_name = lit ''id'', col_type = lit ''INTEGER'', col_nullable = False,
                         col_default = None, col_primary_key = False, col_foreign_key = None,
                         col_max_length = None, col_precision = None, col_scale = None\<rparr>],
          ts_primary_keys = [lit '' id ''], ts_foreign_keys = [], ts_indexes = [],
          ts_row_count = None\<rparr> \<and>
   map col_name (filter col_primary_key
     (ts_columns (projr (get_table_schema padded_manager (lit ''t''))))) = [] \<and>
   ts_primary_keys (projr (get_table_schema padded_manager (lit ''t''))) = [lit '' id '']"
  by code_simp

section \<open>Properties of the table statistics\<close>

lemma row_count_lines_failed:
  "\<not> qr_success (fst (execute_query rt m (lit ''SELECT COUNT(*) as row_count FROM '' @ t))) \<Longrightarrow>
   row_count_lines rt m t = []"
  by (simp add: row_count_lines_def Let_def split: option.splits list.splits)

text \<open>
  A failed count query is tolerated, silently: the statistics are returned without any
  line about the row count.
\<close>

lemma get_table_statistics_count_failed:
  assumes "get_table_schema m t = Inr s" and "ts_columns s \<noteq> []"
    and "\<not> qr_success (fst (execute_query rt m (lit ''SELECT COUNT(*) as row_count FROM '' @ t)))"
  shows "get_table_statistics rt m t =
           (lit ''Statistics for table '' @ quoted t @ newline) @
           (replicate (length t + 25) 0x2D @ newline @ newline) @
           (lit ''Column Count: '' @ str_nat (length (ts_columns s)) @ newline) @
           (lit ''Primary Keys: '' @ str_nat (length (ts_primary_keys s)) @ newline) @
           (lit ''Foreign Keys: '' @ str_nat (length (ts_foreign_keys s)) @ newline) @
           (lit ''Indexes: '' @ str_nat (length (ts_indexes s)) @ newline @ newline) @
           (lit ''Column Details:'' @ newline) @
           concat (map column_details (ts_columns s))"
  unfolding get_table_statistics_def row_count_lines_failed [OF assms(3)]
  using assms(1,2) by simp

text \<open>A schema without columns ends the operation with the fixed text.\<close>

lemma get_table_statistics_no_columns:
  assumes "get_table_schema m t = Inr s" and "ts_columns s = []"
  shows "get_table_statistics rt m t =
           lit ''Table '' @ quoted t @ lit '' not found or has no columns''"
  unfolding get_table_statistics_def using assms by simp

text \<open>
  Claim C7. \<open>execute_query\<close> turns every engine failure into a result with
  \<open>success = False\<close>, so the handler that writes \<open>Row count: Unable to determine\<close> is not
  reached by a failed count query. For the table \<open>orders\<close> of the shop database, whose
  count the engine refuses, the statistics are returned, but they hold no line about the
  row count at all.
\<close>

theorem get_table_statistics_count_failure_silent:
  "\<not> qr_success (fst (execute_query example_runtime shop_manager
        (lit ''SELECT COUNT(*) as row_count FROM orders''))) \<and>
   get_table_statistics example_runtime shop_manager (lit ''orders'') =
     lit ''Statistics for table '' @ quoted (lit ''orders'') @ newline @
     lit ''-------------------------------'' @ newline @ newline @
     lit ''Column Count: 2'' @ newline @
     lit ''Primary Keys: 1'' @ newline @
     lit ''Foreign Keys: 1'' @ newline @
     lit ''Indexes: 0'' @ newline @ newline @
     lit ''Column Details:'' @ newline @
     lit ''  '' @ bullet @ lit '' id:'' @ newline @
     lit ''    - Type: INTEGER'' @ newline @
     lit ''    - Nullable: No'' @ newline @
     lit ''    - Primary Key: Yes'' @ newline @ newline @
     lit ''  '' @ bullet @ lit '' user_id:'' @ newline @
     lit ''    - Type: INTEGER'' @ newline @
     lit ''    - Nullable: No'' @ newline @ newline \<and>
   \<not> contains (get_table_statistics example_runtime shop_manager (lit ''orders''))
        (lit ''Unable to determine'')"
  by code_simp

end
